theory Spec2Isabelle
  imports Main
begin

section \<open>The detection facade of react-native-data-detector\<close>

text \<open>
  The module under verification is the JavaScript entry point of the library:
  \<^verbatim>\<open>
  const NativeModule = requireNativeModule('ReactNativeDataDetector');

  export async function downloadModel(): Promise<boolean> {
    return NativeModule.downloadModel();
  }

  export async function detect(text: string, options?: DetectOptions)
      : Promise<DetectedEntity[]> {
    const types = options?.types ?? ['phoneNumber', 'link', 'email', 'address', 'date'];
    return NativeModule.detect(text, types);
  }
  \<close>
  Both functions are \<open>async\<close>: the promise they return settles exactly as the promise
  of the native call does, and a native call that throws rejects it with the thrown
  value. A settled promise is a value of a sum type, \<open>Inl\<close> the rejection and \<open>Inr\<close>
  the fulfilment.
\<close>

subsection \<open>Data\<close>

text \<open>
  Modelled from the spec: the type declarations of \<^verbatim>\<open>ReactNativeDataDetector.types\<close>,
  which the entry point imports and which are not among the sources. A detected entity
  carries the tag of the entity type that matched, the matched substring, its start and
  end offsets and an optional mapping from field names to strings. The tags are the
  strings JavaScript passes around; nothing at run time restricts them to the five
  known ones. The fields are those the example application reads (\<^verbatim>\<open>entity.type\<close>,
  \<^verbatim>\<open>entity.text\<close>, \<^verbatim>\<open>entity.start\<close>, \<^verbatim>\<open>entity.end\<close>, \<^verbatim>\<open>entity.data\<close>).
\<close>

record DetectedEntity =
  entity_type :: string
  entity_text :: string
  entity_start :: int
  entity_end :: int
  entity_data :: "(string \<times> string) list option"

text \<open>
  Modelled from the spec: the options type of \<^verbatim>\<open>ReactNativeDataDetector.types\<close>, with
  its one optional field \<^verbatim>\<open>types?: DetectionType[]\<close>. \<open>None\<close> is the absent (or
  \<^verbatim>\<open>undefined\<close>) field, \<open>Some ts\<close> an array, in the caller's order and with the
  caller's repetitions. The parameter \<^verbatim>\<open>options?\<close> of \<open>detect\<close> is optional in
  turn: \<open>None\<close> is the omitted argument, \<open>Some opts\<close> an options object.
\<close>

record DetectOptions =
  types :: "string list option"

text \<open>
  What a rejected promise carries: the error of the native layer with its message.
\<close>

datatype error = NativeError (message: string)

text \<open>
  The object \<^verbatim>\<open>requireNativeModule('ReactNativeDataDetector')\<close> returns. Its two
  methods run platform code, which may keep state of its own (a downloaded model, for
  one): each takes the state \<open>'n\<close> of the native layer and returns the settled promise
  with the new state. The facade is verified for every such module.
\<close>

record 'n NativeModule =
  nm_downloadModel :: "'n \<Rightarrow> (error + bool) \<times> 'n"
  nm_detect :: "string \<Rightarrow> string list \<Rightarrow> 'n \<Rightarrow> (error + DetectedEntity list) \<times> 'n"

subsection \<open>The two operators of line 24\<close>

text \<open>
  \<^verbatim>\<open>a?.f\<close> is \<^verbatim>\<open>undefined\<close> when \<^verbatim>\<open>a\<close> is nullish and \<^verbatim>\<open>a.f\<close> otherwise;
  \<^verbatim>\<open>a ?? b\<close> is \<^verbatim>\<open>b\<close> when \<^verbatim>\<open>a\<close> is nullish and \<^verbatim>\<open>a\<close> otherwise. An empty
  array is not nullish.
\<close>

definition optional_chain :: "'a option \<Rightarrow> ('a \<Rightarrow> 'b option) \<Rightarrow> 'b option" where
  "optional_chain a f = (case a of None \<Rightarrow> None | Some x \<Rightarrow> f x)"

definition nullish_coalescing :: "'a option \<Rightarrow> 'a \<Rightarrow> 'a" where
  "nullish_coalescing a b = (case a of None \<Rightarrow> b | Some x \<Rightarrow> x)"

subsection \<open>The facade\<close>

definition downloadModel :: "'n NativeModule \<Rightarrow> 'n \<Rightarrow> (error + bool) \<times> 'n" where
  "downloadModel NativeModule = nm_downloadModel NativeModule"

text \<open>The constant \<^verbatim>\<open>types\<close> that line 24 of the source binds.\<close>

definition detect_types :: "DetectOptions option \<Rightarrow> string list" where
  "detect_types options =
     nullish_coalescing (optional_chain options types)
       [''phoneNumber'', ''link'', ''email'', ''address'', ''date'']"

definition detect ::
  "'n NativeModule \<Rightarrow> string \<Rightarrow> DetectOptions option \<Rightarrow> 'n
     \<Rightarrow> (error + DetectedEntity list) \<times> 'n" where
  "detect NativeModule text options =
     (let types = detect_types options in nm_detect NativeModule text types)"

subsection \<open>Observing the native calls\<close>

text \<open>
  To say what the facade hands to the native layer, and how often, a native module is
  wrapped so that it appends every call it receives, with the arguments, to a log kept
  beside its own state. The wrapped module answers as the module inside does.
\<close>

datatype native_call = DownloadModelCall | DetectCall string "string list"

definition recording :: "'n NativeModule \<Rightarrow> ('n \<times> native_call list) NativeModule" where
  "recording nm =
     \<lparr> nm_downloadModel = (\<lambda>(s, log).
         (fst (nm_downloadModel nm s), (snd (nm_downloadModel nm s), log @ [DownloadModelCall]))),
       nm_detect = (\<lambda>text ts (s, log).
         (fst (nm_detect nm text ts s), (snd (nm_detect nm text ts s), log @ [DetectCall text ts]))) \<rparr>"

subsection \<open>What the native layer is taken to do\<close>


text \<open>
  A deterministic native backend: what a native detection returns depends on the text
  and the filter alone, not on the state the native layer is in.
\<close>

definition deterministic :: "'n NativeModule \<Rightarrow> bool" where
  "deterministic nm \<longleftrightarrow>
     (\<forall>text ts s s'. fst (nm_detect nm text ts s) = fst (nm_detect nm text ts s'))"

subsection \<open>Native modules to run the facade on\<close>

definition sampleText :: string where
  "sampleText = ''Call me at (555) 123-4567 or email john@example.com.''"

definition sampleEntities :: "DetectedEntity list" where
  "sampleEntities =
     [\<lparr>entity_type = ''phoneNumber'', entity_text = ''(555) 123-4567'',
        entity_start = 11, entity_end = 25, entity_data = None\<rparr>,
      \<lparr>entity_type = ''email'', entity_text = ''john@example.com'',
        entity_start = 35, entity_end = 51, entity_data = None\<rparr>]"

text \<open>
  A native module that knows one text, returns its entities of the requested types and
  counts in its state the detections it has run.
\<close>

definition sampleNative :: "nat NativeModule" where
  "sampleNative =
     \<lparr> nm_downloadModel = (\<lambda>n. (Inr False, n)),
       nm_detect = (\<lambda>text ts n.
         (Inr (if text = sampleText then filter (\<lambda>e. entity_type e \<in> set ts) sampleEntities else []),
          Suc n)) \<rparr>"

text \<open>
  Modelled from the spec: the native module of a platform whose detector needs no
  model (the platform code is not among the sources). Its \<^verbatim>\<open>downloadModel\<close> does
  nothing and reports \<^verbatim>\<open>false\<close>, "no download needed"; it never fails. Its detector
  finds nothing.
\<close>

definition noDownloadNative :: "unit NativeModule" where
  "noDownloadNative =
     \<lparr> nm_downloadModel = (\<lambda>u. (Inr False, u)),
       nm_detect = (\<lambda>text ts u. (Inr [], u)) \<rparr>"

text \<open>A native module whose detector fails on every call.\<close>

definition failingNative :: "unit NativeModule" where
  "failingNative =
     \<lparr> nm_downloadModel = (\<lambda>u. (Inl (NativeError ''Model download failed''), u)),
       nm_detect = (\<lambda>text ts u. (Inl (NativeError ''Entity extraction failed''), u)) \<rparr>"

text \<open>
  A native module whose detector returns a repeated entity, entities out of textual
  order and an entity whose offsets lie outside every text.
\<close>

definition untidyEntities :: "DetectedEntity list" where
  "untidyEntities =
     [\<lparr>entity_type = ''email'', entity_text = ''john@example.com'',
        entity_start = 35, entity_end = 51, entity_data = None\<rparr>,
      \<lparr>entity_type = ''phoneNumber'', entity_text = ''(555) 123-4567'',
        entity_start = 11, entity_end = 25, entity_data = Some [(''phoneNumber'', ''5551234567'')]\<rparr>,
      \<lparr>entity_type = ''email'', entity_text = ''john@example.com'',
        entity_start = 35, entity_end = 51, entity_data = None\<rparr>,
      \<lparr>entity_type = ''link'', entity_text = ''x'',
        entity_start = 900, entity_end = - 1, entity_data = None\<rparr>]"

definition untidyNative :: "unit NativeModule" where
  "untidyNative =
     \<lparr> nm_downloadModel = (\<lambda>u. (Inr True, u)),
       nm_detect = (\<lambda>text ts u. (Inr untidyEntities, u)) \<rparr>"

section \<open>Properties\<close>

subsection \<open>Basic facts\<close>

lemma detect_types_omitted:
  "detect_types None = [''phoneNumber'', ''link'', ''email'', ''address'', ''date'']"
  by (simp add: detect_types_def optional_chain_def nullish_coalescing_def)

lemma detect_types_no_field:
  "detect_types (Some \<lparr>types = None\<rparr>) = [''phoneNumber'', ''link'', ''email'', ''address'', ''date'']"
  by (simp add: detect_types_def optional_chain_def nullish_coalescing_def)

lemma detect_types_given:
  "detect_types (Some \<lparr>types = Some ts\<rparr>) = ts"
  by (simp add: detect_types_def optional_chain_def nullish_coalescing_def)

lemma detect_delegates:
  "detect nm T options s = nm_detect nm T (detect_types options) s"
  by (simp add: detect_def)

lemma detect_recording:
  "detect (recording nm) T options (s, log) =
     (fst (nm_detect nm T (detect_types options) s),
      (snd (nm_detect nm T (detect_types options) s), log @ [DetectCall T (detect_types options)]))"
  by (simp add: detect_def recording_def Let_def)

lemma downloadModel_recording:
  "downloadModel (recording nm) (s, log) =
     (fst (nm_downloadModel nm s), (snd (nm_downloadModel nm s), log @ [DownloadModelCall]))"
  by (simp add: downloadModel_def recording_def)

subsection \<open>The filter\<close>




text \<open>
  Claim C2. For every text \<open>T\<close>, a call of \<open>detect\<close> with the options omitted makes
  exactly one native call, and the filter it passes is the list of the five entity
  types phoneNumber, link, email, address, date.
\<close>

theorem detect_omitted_passes_five_types:
  "snd (snd (detect (recording nm) T None (s, log))) =
     log @ [DetectCall T [''phoneNumber'', ''link'', ''email'', ''address'', ''date'']]"
  by (simp add: detect_recording detect_types_omitted)

text \<open>
  Claim C9. For every text \<open>T\<close>, a call with an options object whose \<open>types\<close> field is
  absent or undefined, as in \<open>detect(T, {})\<close>, behaves as the call with the options
  omitted: the same native call with the five-type default, the same result and the
  same native state afterwards.
\<close>

theorem detect_no_types_field_same_as_omitted:
  "detect nm T (Some \<lparr>types = None\<rparr>) s = detect nm T None s \<and>
   detect (recording nm) T (Some \<lparr>types = None\<rparr>) (s, log) =
     detect (recording nm) T None (s, log) \<and>
   snd (snd (detect (recording nm) T (Some \<lparr>types = None\<rparr>) (s, log))) =
     log @ [DetectCall T [''phoneNumber'', ''link'', ''email'', ''address'', ''date'']]"
  by (simp add: detect_def recording_def Let_def detect_types_no_field detect_types_omitted)

text \<open>
  Claim C7. For every text \<open>T\<close>, \<open>detect(T)\<close> with the options omitted behaves as
  \<open>detect(T, {types: [the five entity types]})\<close>: both make the same native call, with
  the same text and the same filter, and return the same result.
\<close>

theorem detect_omitted_same_as_all_five:
  "detect nm T None s =
     detect nm T (Some \<lparr>types = Some [''phoneNumber'', ''link'', ''email'', ''address'', ''date'']\<rparr>) s \<and>
   detect (recording nm) T None (s, log) =
     detect (recording nm) T
       (Some \<lparr>types = Some [''phoneNumber'', ''link'', ''email'', ''address'', ''date'']\<rparr>) (s, log)"
  by (simp add: detect_def recording_def Let_def detect_types_given detect_types_omitted)

text \<open>
  Claim C10. When \<open>options.types\<close> is present, \<open>detect\<close> hands the caller's array to the
  native detector as it is: for every list \<open>ts\<close> of strings, whatever its order, its
  repetitions and its tags, the one native call made carries \<open>ts\<close> itself.
\<close>

theorem detect_forwards_types_verbatim:
  "snd (snd (detect (recording nm) T (Some \<lparr>types = Some ts\<rparr>) (s, log))) =
     log @ [DetectCall T ts]"
  by (simp add: detect_recording detect_types_given)

lemma detect_forwards_duplicates_and_unknown_tags:
  "snd (snd (detect (recording sampleNative) sampleText
       (Some \<lparr>types = Some [''link'', ''postcode'', ''email'', ''link'', ''Date'']\<rparr>) (0, []))) =
     [DetectCall sampleText [''link'', ''postcode'', ''email'', ''link'', ''Date'']]"
  by (simp add: detect_recording detect_types_given)

subsection \<open>Delegation\<close>

text \<open>
  Claim C4. For every text \<open>T\<close> and every options value, the result of
  \<open>detect(T, options)\<close> is the very sequence the native detector returns for the
  resolved filter: the same elements in the same order, nothing removed, reordered or
  checked.
\<close>

theorem detect_result_is_native_result:
  "fst (detect nm T options s) = fst (nm_detect nm T (detect_types options) s)"
  by (simp add: detect_delegates)

lemma untidyEntities_untidy:
  "\<not> distinct untidyEntities \<and> \<not> sorted (map entity_start untidyEntities) \<and>
   (\<exists>e \<in> set untidyEntities. entity_end e < entity_start e)"
  by (simp add: untidyEntities_def)

lemma detect_keeps_untidy_result:
  "fst (detect untidyNative T options ()) = Inr untidyEntities"
  by (simp add: detect_delegates untidyNative_def)

text \<open>
  Claim C5. For every text \<open>T\<close> and every options value, \<open>detect\<close> makes one native
  call, the text of that call is \<open>T\<close> itself, and what \<open>detect\<close> returns is what that
  call returned: the facade detects nothing on its own.
\<close>

theorem detect_passes_text_unaltered:
  "snd (snd (detect (recording nm) T options (s, log))) =
     log @ [DetectCall T (detect_types options)] \<and>
   fst (detect (recording nm) T options (s, log)) =
     fst (nm_detect nm T (detect_types options) s)"
  by (simp add: detect_recording)

lemma detect_keeps_blanks_and_case:
  "snd (snd (detect (recording noDownloadNative) ''  Call ME  '' None ((), []))) =
     [DetectCall ''  Call ME  '' [''phoneNumber'', ''link'', ''email'', ''address'', ''date'']] \<and>
   fst (detect (recording noDownloadNative) sampleText None ((), [])) = Inr []"
  by (simp add: detect_recording detect_types_omitted noDownloadNative_def)

subsection \<open>Errors\<close>

text \<open>
  Claim C6. Whenever the native detector reports an error, \<open>detect\<close> fails with that
  same error, its message unchanged; it has made the one native call and no other, and
  it returns no list, partial or otherwise.
\<close>

theorem detect_error_passes_through:
  assumes "fst (nm_detect nm T (detect_types options) s) = Inl e"
  shows "fst (detect nm T options s) = Inl e \<and>
     message (projl (fst (detect nm T options s))) = message e \<and>
     (\<forall>es. fst (detect nm T options s) \<noteq> Inr es) \<and>
     fst (detect (recording nm) T options (s, log)) = Inl e \<and>
     snd (snd (detect (recording nm) T options (s, log))) =
       log @ [DetectCall T (detect_types options)]"
  using assms by (simp add: detect_def recording_def Let_def)

theorem detect_error_passes_through_witness:
  "fst (nm_detect failingNative sampleText (detect_types None) ()) =
     Inl (NativeError ''Entity extraction failed'') \<and>
   fst (detect failingNative sampleText None ()) = Inl (NativeError ''Entity extraction failed'') \<and>
   message (projl (fst (detect failingNative sampleText None ()))) = ''Entity extraction failed'' \<and>
   snd (snd (detect (recording failingNative) sampleText None ((), []))) =
     [DetectCall sampleText [''phoneNumber'', ''link'', ''email'', ''address'', ''date'']]"
proof -
  have h: "fst (nm_detect failingNative sampleText (detect_types None) ()) =
      Inl (NativeError ''Entity extraction failed'')"
    by (simp add: failingNative_def)
  from detect_error_passes_through [OF h, where log = "[]"] h
  show ?thesis by (simp add: detect_types_omitted)
qed

subsection \<open>Repeated calls\<close>

text \<open>
  Claim C8. For every text \<open>T\<close> and options value, the facade keeps no state of its
  own: the native state after a call is the one the native call left. With a
  deterministic native backend, a second call with the same arguments, made right
  after the first, returns the same result as the first, and so does a call with the
  same arguments made in any other native state \<open>s'\<close>.
\<close>

theorem detect_twice_same_result:
  "snd (detect nm T options s) = snd (nm_detect nm T (detect_types options) s) \<and>
   (deterministic nm \<longrightarrow>
      fst (detect nm T options (snd (detect nm T options s))) = fst (detect nm T options s) \<and>
      fst (detect nm T options s') = fst (detect nm T options s))"
  by (simp add: detect_delegates deterministic_def)

theorem detect_twice_same_result_witness:
  "deterministic sampleNative \<and>
   snd (detect sampleNative sampleText None 0) \<noteq> 0 \<and>
   fst (detect sampleNative sampleText None (snd (detect sampleNative sampleText None 0))) =
     fst (detect sampleNative sampleText None 0)"
proof -
  have h: "deterministic sampleNative"
    by (simp add: deterministic_def sampleNative_def)
  have "snd (detect sampleNative sampleText None 0) \<noteq> 0"
    by (simp add: detect_delegates sampleNative_def)
  with detect_twice_same_result [where nm = sampleNative and T = sampleText
      and options = None and s = 0 and s' = 7] h
  show ?thesis by blast
qed

subsection \<open>Model download\<close>

text \<open>
  Claim C3, as the code has it. On every platform \<open>downloadModel()\<close> invokes
  \<open>downloadModel\<close> of the native module, once, and returns what it returns; on a
  platform whose native module needs no model and reports "no download needed", that
  is the result of the call.
\<close>

theorem downloadModel_delegates:
  "fst (downloadModel (recording nm) (s, log)) = fst (nm_downloadModel nm s) \<and>
   snd (snd (downloadModel (recording nm) (s, log))) = log @ [DownloadModelCall] \<and>
   downloadModel nm s = nm_downloadModel nm s \<and>
   fst (downloadModel noDownloadNative ()) = Inr False"
  by (simp add: downloadModel_def recording_def noDownloadNative_def)

text \<open>
  Claim C3, as the specification words it, does not hold: on the platform that needs
  no model, \<open>downloadModel()\<close> returns "no download needed" but it has invoked the
  native layer to learn so.
\<close>

theorem downloadModel_invokes_native_counterexample:
  "fst (downloadModel (recording noDownloadNative) ((), [])) = Inr False \<and>
   snd (snd (downloadModel (recording noDownloadNative) ((), []))) = [DownloadModelCall] \<and>
   snd (snd (downloadModel (recording noDownloadNative) ((), []))) \<noteq> []"
  by (simp add: downloadModel_recording noDownloadNative_def)

end
